theory Spec2Isabelle
  imports Main "HOL-Library.Word"
begin

unbundle bit_operations_syntax

section \<open>Bytes, errors and the standard-library helpers the package uses\<close>

type_synonym byte = "8 word"
type_synonym bytes = "byte list"

text \<open>Error values of package \<open>kem\<close> and of the entropy source.\<close>

datatype go_error =
    ErrPrivKeySize | ErrPrivKey | ErrPubKeySize | ErrPubKey | ErrIO string

text \<open>What a \<open>panic\<close> carries: a message, an error value (\<open>panic(err)\<close>), or the
  run-time fault of calling through a nil pointer.\<close>

datatype panic_value = PanicMsg string | PanicErr go_error | PanicNilDeref

text \<open>A call that does not complete normally either panics or returns an error value.\<close>

datatype fault = Panic panic_value | Error go_error

text \<open>Go's \<open>copy(dst, src)\<close>: the first \<open>min (len dst) (len src)\<close> bytes of \<open>dst\<close> are
  overwritten; the result is the new content of \<open>dst\<close>.\<close>

definition copy_bytes :: "bytes \<Rightarrow> bytes \<Rightarrow> bytes" where
  "copy_bytes dst src =
     take (min (length dst) (length src)) src @ drop (min (length dst) (length src)) dst"

text \<open>\<open>subtle.ConstantTimeByteEq(x, y) = int((uint32(x ^ y) - 1) >> 31)\<close>.\<close>

definition ConstantTimeByteEq :: "byte \<Rightarrow> byte \<Rightarrow> int" where
  "ConstantTimeByteEq x y = uint (drop_bit 31 ((ucast (x XOR y) :: 32 word) - 1))"

text \<open>\<open>subtle.ConstantTimeCompare\<close>: 0 at once when the lengths differ; otherwise the XOR of
  every byte pair is OR-ed into one accumulator, which is compared with 0 at the end.\<close>

definition ConstantTimeCompare :: "bytes \<Rightarrow> bytes \<Rightarrow> int" where
  "ConstantTimeCompare x y =
     (if length x \<noteq> length y then 0
      else ConstantTimeByteEq (fold (\<lambda>(a, b) v. v OR (a XOR b)) (zip x y) 0) 0)"

text \<open>\<open>subtle.ConstantTimeCopy(v, x, y)\<close>: panics (here \<open>None\<close>) when the lengths differ;
  otherwise every byte becomes \<open>x[i] & byte(v-1) | y[i] & byte(^(v-1))\<close>. The result is
  the new content of \<open>x\<close>.\<close>

definition ConstantTimeCopy :: "int \<Rightarrow> bytes \<Rightarrow> bytes \<Rightarrow> bytes option" where
  "ConstantTimeCopy v x y =
     (if length x \<noteq> length y then None
      else Some (map (\<lambda>(a, b). (a AND (word_of_int (v - 1) :: byte))
                                OR (b AND (word_of_int (NOT (v - 1)) :: byte))) (zip x y)))"

text \<open>A SHA-3 or SHAKE state after its input has been written is the stream of bytes it
  squeezes; \<open>Read\<close> into a buffer of \<open>n\<close> bytes takes the first \<open>n\<close> of them.\<close>

type_synonym sponge = "nat \<Rightarrow> byte"

definition sha3_Read :: "sponge \<Rightarrow> nat \<Rightarrow> bytes" where
  "sha3_Read h n = map h [0..<n]"

section \<open>The template's parameters: variant flag and imported packages\<close>

text \<open>
  The package is generated from a template with the flag \<open>.NIST\<close> (standardized ML-KEM when
  set, round-3 Kyber otherwise). It imports the CPA-secure encryption \<open>cpapke\<close>, the hash
  package \<open>sha3\<close> and \<open>crypto/rand\<close>; they are parameters here. A \<open>cpapke\<close> method
  that writes into a caller's buffer is a function returning the bytes written.
  The entropy source is read through a state \<open>'w\<close>: asking for \<open>n\<close> bytes yields an
  error or the bytes that filled the buffer, and the next state.
\<close>

type_synonym 'w reader = "'w \<Rightarrow> nat \<Rightarrow> (go_error + bytes) \<times> 'w"

record ('pk, 'sk, 'w) pkg =
  NIST :: bool
  cpapke_KeySeedSize :: nat
  cpapke_CiphertextSize :: nat
  cpapke_PublicKeySize :: nat
  cpapke_PrivateKeySize :: nat
  cpapke_NewKeyFromSeed :: "bytes \<Rightarrow> 'pk \<times> 'sk"
  cpapke_NewKeyFromSeedMLKEM :: "bytes \<Rightarrow> 'pk \<times> 'sk"
  cpapke_EncryptTo :: "'pk \<Rightarrow> bytes \<Rightarrow> bytes \<Rightarrow> bytes"
  cpapke_DecryptTo :: "'sk \<Rightarrow> bytes \<Rightarrow> bytes"
  cpapke_PackPk :: "'pk \<Rightarrow> bytes"
  cpapke_PackSk :: "'sk \<Rightarrow> bytes"
  cpapke_UnpackPk :: "bytes \<Rightarrow> 'pk"
  cpapke_UnpackMLKEM :: "bytes \<Rightarrow> 'pk \<times> go_error option"
  cpapke_UnpackSk :: "bytes \<Rightarrow> 'sk"
  cpapke_EqualSk :: "'sk \<Rightarrow> 'sk \<Rightarrow> bool"
  sha3_New256 :: "bytes \<Rightarrow> sponge"
  sha3_New512 :: "bytes \<Rightarrow> sponge"
  sha3_NewShake256 :: "bytes \<Rightarrow> sponge"
  cryptoRand_Reader :: "'w reader"

section \<open>Constants and key types\<close>

definition KeySeedSize :: "('pk, 'sk, 'w) pkg \<Rightarrow> nat" where
  "KeySeedSize T = cpapke_KeySeedSize T + 32"

definition EncapsulationSeedSize :: nat where
  "EncapsulationSeedSize = 32"

definition SharedKeySize :: nat where
  "SharedKeySize = 32"

definition CiphertextSize :: "('pk, 'sk, 'w) pkg \<Rightarrow> nat" where
  "CiphertextSize T = cpapke_CiphertextSize T"

definition PublicKeySize :: "('pk, 'sk, 'w) pkg \<Rightarrow> nat" where
  "PublicKeySize T = cpapke_PublicKeySize T"

definition PrivateKeySize :: "('pk, 'sk, 'w) pkg \<Rightarrow> nat" where
  "PrivateKeySize T = cpapke_PrivateKeySize T + cpapke_PublicKeySize T + 64"

text \<open>The pointer fields may be nil (\<open>None\<close>), as in the zero value of either struct.\<close>

record 'pk PublicKey =
  pub_pk :: "'pk option"
  pub_hpk :: bytes

record ('pk, 'sk) PrivateKey =
  priv_sk :: "'sk option"
  priv_pk :: "'pk option"
  priv_hpk :: bytes
  priv_z :: bytes

text \<open>The zero values \<open>var pk PublicKey\<close> and \<open>var sk PrivateKey\<close>.\<close>

definition zero_PublicKey :: "'pk PublicKey" where
  "zero_PublicKey = \<lparr>pub_pk = None, pub_hpk = replicate 32 0\<rparr>"

definition zero_PrivateKey :: "('pk, 'sk) PrivateKey" where
  "zero_PrivateKey =
     \<lparr>priv_sk = None, priv_pk = None, priv_hpk = replicate 32 0, priv_z = replicate 32 0\<rparr>"

section \<open>Key generation\<close>

definition NewKeyFromSeed ::
  "('pk, 'sk, 'w) pkg \<Rightarrow> bytes \<Rightarrow> fault + ('pk PublicKey \<times> ('pk, 'sk) PrivateKey)" where
  "NewKeyFromSeed T seed =
     (if length seed \<noteq> KeySeedSize T
      then Inl (Panic (PanicMsg ''seed must be of length KeySeedSize''))
      else
        let (cpk, csk) =
              (if NIST T then cpapke_NewKeyFromSeedMLKEM T (take (cpapke_KeySeedSize T) seed)
               else cpapke_NewKeyFromSeed T (take (cpapke_KeySeedSize T) seed));
            z = copy_bytes (replicate 32 0) (drop (cpapke_KeySeedSize T) seed);
            ppk = cpapke_PackPk T cpk;
            hpk = sha3_Read (sha3_New256 T ppk) 32
        in Inr (\<lparr>pub_pk = Some cpk, pub_hpk = copy_bytes (replicate 32 0) hpk\<rparr>,
                \<lparr>priv_sk = Some csk, priv_pk = Some cpk, priv_hpk = hpk, priv_z = z\<rparr>))"

text \<open>\<open>rand\<close> is \<open>None\<close> for a nil reader, which selects \<open>crypto/rand.Reader\<close>.\<close>

definition GenerateKeyPair ::
  "('pk, 'sk, 'w) pkg \<Rightarrow> 'w reader option \<Rightarrow> 'w
     \<Rightarrow> (fault + ('pk PublicKey \<times> ('pk, 'sk) PrivateKey)) \<times> 'w" where
  "GenerateKeyPair T rand w =
     (let rd = (case rand of None \<Rightarrow> cryptoRand_Reader T | Some r \<Rightarrow> r)
      in case rd w (KeySeedSize T) of
           (Inl err, w') \<Rightarrow> (Inl (Error err), w')
         | (Inr seed, w') \<Rightarrow> (NewKeyFromSeed T seed, w'))"

section \<open>Encapsulation\<close>

text \<open>
  \<open>EncapsulateTo\<close> writes into the caller's \<open>ct\<close> and \<open>ss\<close>. The result holds the panic,
  if any, the two buffers as the call leaves them, and the state of the entropy source.
\<close>

definition EncapsulateTo ::
  "('pk, 'sk, 'w) pkg \<Rightarrow> 'pk PublicKey \<Rightarrow> bytes \<Rightarrow> bytes \<Rightarrow> bytes option \<Rightarrow> 'w
     \<Rightarrow> fault option \<times> bytes \<times> bytes \<times> 'w" where
  "EncapsulateTo T pk ct ss seed w =
     (case (case seed of
              None \<Rightarrow>
                (case cryptoRand_Reader T w EncapsulationSeedSize of
                   (Inl err, w') \<Rightarrow> (Inl (Panic (PanicErr err)), w')
                 | (Inr s, w') \<Rightarrow> (Inr s, w'))
            | Some s \<Rightarrow>
                if length s \<noteq> EncapsulationSeedSize
                then (Inl (Panic (PanicMsg ''seed must be of length EncapsulationSeedSize'')), w)
                else (Inr s, w)) of
        (Inl f, w') \<Rightarrow> (Some f, ct, ss, w')
      | (Inr s, w') \<Rightarrow>
          if length ct \<noteq> CiphertextSize T
          then (Some (Panic (PanicMsg ''ct must be of length CiphertextSize'')), ct, ss, w')
          else if length ss \<noteq> SharedKeySize
          then (Some (Panic (PanicMsg ''ss must be of length SharedKeySize'')), ct, ss, w')
          else
            let m = (if NIST T then copy_bytes (replicate 32 0) s
                     else sha3_Read (sha3_New256 T s) 32);
                kr = sha3_Read (sha3_New512 T (m @ pub_hpk pk)) 64
            in case pub_pk pk of
                 None \<Rightarrow> (Some (Panic PanicNilDeref), ct, ss, w')
               | Some cpk \<Rightarrow>
                   let ct' = cpapke_EncryptTo T cpk m (drop 32 kr)
                   in if NIST T
                      then (None, ct', copy_bytes ss (take SharedKeySize kr), w')
                      else
                        let kr' = take 32 kr
                                  @ sha3_Read (sha3_New256 T (take (CiphertextSize T) ct')) 32
                        in (None, ct',
                            sha3_Read (sha3_NewShake256 T kr') SharedKeySize
                              @ drop SharedKeySize ss, w'))"

section \<open>Decapsulation\<close>

text \<open>The result holds the panic, if any, and \<open>ss\<close> as the call leaves it.\<close>

definition DecapsulateTo ::
  "('pk, 'sk, 'w) pkg \<Rightarrow> ('pk, 'sk) PrivateKey \<Rightarrow> bytes \<Rightarrow> bytes \<Rightarrow> fault option \<times> bytes" where
  "DecapsulateTo T sk ss ct =
     (if length ct \<noteq> CiphertextSize T
      then (Some (Panic (PanicMsg ''ct must be of length CiphertextSize'')), ss)
      else if length ss \<noteq> SharedKeySize
      then (Some (Panic (PanicMsg ''ss must be of length SharedKeySize'')), ss)
      else
        case priv_sk sk of
          None \<Rightarrow> (Some (Panic PanicNilDeref), ss)
        | Some csk \<Rightarrow>
            let m2 = cpapke_DecryptTo T csk ct;
                kr2 = sha3_Read (sha3_New512 T (m2 @ priv_hpk sk)) 64
            in case priv_pk sk of
                 None \<Rightarrow> (Some (Panic PanicNilDeref), ss)
               | Some cpk \<Rightarrow>
                   let ct2 = cpapke_EncryptTo T cpk m2 (drop 32 kr2)
                   in if NIST T
                      then
                        let ss2 = sha3_Read (sha3_NewShake256 T
                                     (priv_z sk @ take (CiphertextSize T) ct)) SharedKeySize
                        in case ConstantTimeCopy (ConstantTimeCompare ct ct2)
                                  ss2 (take SharedKeySize kr2) of
                             None \<Rightarrow>
                               (Some (Panic (PanicMsg ''subtle: slices have different lengths'')), ss)
                           | Some ss2' \<Rightarrow> (None, copy_bytes ss ss2')
                      else
                        let kr2h = take 32 kr2
                                   @ sha3_Read (sha3_New256 T (take (CiphertextSize T) ct)) 32
                        in case ConstantTimeCopy (1 - ConstantTimeCompare ct ct2)
                                  (take 32 kr2h) (priv_z sk) of
                             None \<Rightarrow>
                               (Some (Panic (PanicMsg ''subtle: slices have different lengths'')), ss)
                           | Some first \<Rightarrow>
                               (None, sha3_Read (sha3_NewShake256 T (first @ drop 32 kr2h))
                                        (length ss)))"

section \<open>Serialization\<close>

text \<open>\<open>Pack\<close> writes into the caller's buffer; the result holds the panic, if any, and the
  buffer as the call leaves it.\<close>

definition PrivateKey_Pack ::
  "('pk, 'sk, 'w) pkg \<Rightarrow> ('pk, 'sk) PrivateKey \<Rightarrow> bytes \<Rightarrow> fault option \<times> bytes" where
  "PrivateKey_Pack T sk buf =
     (if length buf \<noteq> PrivateKeySize T
      then (Some (Panic (PanicMsg ''buf must be of length PrivateKeySize'')), buf)
      else
        case priv_sk sk of
          None \<Rightarrow> (Some (Panic PanicNilDeref), buf)
        | Some csk \<Rightarrow>
            let out_sk = cpapke_PackSk T csk;
                buf1 = drop (cpapke_PrivateKeySize T) buf
            in case priv_pk sk of
                 None \<Rightarrow> (Some (Panic PanicNilDeref), out_sk @ buf1)
               | Some cpk \<Rightarrow>
                   let out_pk = cpapke_PackPk T cpk;
                       buf2 = copy_bytes (drop (cpapke_PublicKeySize T) buf1) (priv_hpk sk);
                       buf3 = copy_bytes (drop 32 buf2) (priv_z sk)
                   in (None, out_sk @ out_pk @ take 32 buf2 @ buf3))"

text \<open>\<open>Unpack\<close> assigns the receiver's fields one by one; the result holds the error or
  panic, if any, and the receiver as the call leaves it. The standardized variant returns
  errors, the pre-standard one panics on a wrong size and returns nothing.\<close>

definition PrivateKey_Unpack ::
  "('pk, 'sk, 'w) pkg \<Rightarrow> ('pk, 'sk) PrivateKey \<Rightarrow> bytes
     \<Rightarrow> fault option \<times> ('pk, 'sk) PrivateKey" where
  "PrivateKey_Unpack T sk buf =
     (if length buf \<noteq> PrivateKeySize T
      then (Some (if NIST T then Error ErrPrivKeySize
                  else Panic (PanicMsg ''buf must be of length PrivateKeySize'')), sk)
      else
        let sk1 = sk\<lparr>priv_sk := Some (cpapke_UnpackSk T (take (cpapke_PrivateKeySize T) buf))\<rparr>;
            buf1 = drop (cpapke_PrivateKeySize T) buf;
            sk2 = sk1\<lparr>priv_pk := Some (cpapke_UnpackPk T (take (cpapke_PublicKeySize T) buf1))\<rparr>;
            hpk = sha3_Read (sha3_New256 T (take (cpapke_PublicKeySize T) buf1)) 32;
            buf2 = drop (cpapke_PublicKeySize T) buf1;
            sk3 = sk2\<lparr>priv_hpk := copy_bytes (priv_hpk sk2) (take 32 buf2)\<rparr>;
            sk4 = sk3\<lparr>priv_z := copy_bytes (priv_z sk3) (drop 32 buf2)\<rparr>
        in if NIST T \<and> hpk \<noteq> priv_hpk sk4 then (Some (Error ErrPrivKey), sk4)
           else (None, sk4))"

definition PublicKey_Pack ::
  "('pk, 'sk, 'w) pkg \<Rightarrow> 'pk PublicKey \<Rightarrow> bytes \<Rightarrow> fault option \<times> bytes" where
  "PublicKey_Pack T pk buf =
     (if length buf \<noteq> PublicKeySize T
      then (Some (Panic (PanicMsg ''buf must be of length PublicKeySize'')), buf)
      else
        case pub_pk pk of
          None \<Rightarrow> (Some (Panic PanicNilDeref), buf)
        | Some cpk \<Rightarrow> (None, cpapke_PackPk T cpk))"

definition PublicKey_Unpack ::
  "('pk, 'sk, 'w) pkg \<Rightarrow> 'pk PublicKey \<Rightarrow> bytes \<Rightarrow> fault option \<times> 'pk PublicKey" where
  "PublicKey_Unpack T pk buf =
     (if length buf \<noteq> PublicKeySize T
      then (Some (if NIST T then Error ErrPubKeySize
                  else Panic (PanicMsg ''buf must be of length PublicKeySize'')), pk)
      else if NIST T
      then
        (case cpapke_UnpackMLKEM T buf of
           (cpk, Some err) \<Rightarrow> (Some (Error err), pk\<lparr>pub_pk := Some cpk\<rparr>)
         | (cpk, None) \<Rightarrow>
             (None, pk\<lparr>pub_pk := Some cpk, pub_hpk := sha3_Read (sha3_New256 T buf) 32\<rparr>))
      else
        (None, pk\<lparr>pub_pk := Some (cpapke_UnpackPk T buf),
                   pub_hpk := sha3_Read (sha3_New256 T buf) 32\<rparr>))"

section \<open>Equality\<close>

text \<open>The argument of \<open>Equal\<close> is a value of the interface \<open>kem.PrivateKey\<close>
  (\<open>kem.PublicKey\<close>): a key of this package, a nil pointer of this package's key type, or a
  key of another scheme, for which the type assertion fails.\<close>

datatype ('pk, 'sk) kem_PrivateKey =
    ThisPrivateKey "('pk, 'sk) PrivateKey" | NilPrivateKey | OtherPrivateKey

datatype 'pk kem_PublicKey =
    ThisPublicKey "'pk PublicKey" | NilPublicKey | OtherPublicKey

definition PrivateKey_Equal ::
  "('pk, 'sk, 'w) pkg \<Rightarrow> ('pk, 'sk) PrivateKey \<Rightarrow> ('pk, 'sk) kem_PrivateKey \<Rightarrow> fault + bool" where
  "PrivateKey_Equal T sk other =
     (case other of
        OtherPrivateKey \<Rightarrow> Inr False
      | NilPrivateKey \<Rightarrow> Inl (Panic PanicNilDeref)
      | ThisPrivateKey oth \<Rightarrow>
          if priv_pk sk = None \<and> priv_pk oth = None then Inr True
          else if priv_pk sk = None \<or> priv_pk oth = None then Inr False
          else if priv_hpk sk \<noteq> priv_hpk oth
                  \<or> ConstantTimeCompare (priv_z sk) (priv_z oth) \<noteq> 1 then Inr False
          else
            (case (priv_sk sk, priv_sk oth) of
               (Some a, Some b) \<Rightarrow> Inr (cpapke_EqualSk T a b)
             | _ \<Rightarrow> Inl (Panic PanicNilDeref)))"

definition PublicKey_Equal ::
  "('pk, 'sk, 'w) pkg \<Rightarrow> 'pk PublicKey \<Rightarrow> 'pk kem_PublicKey \<Rightarrow> fault + bool" where
  "PublicKey_Equal T pk other =
     (case other of
        OtherPublicKey \<Rightarrow> Inr False
      | NilPublicKey \<Rightarrow> Inl (Panic PanicNilDeref)
      | ThisPublicKey oth \<Rightarrow>
          if pub_pk pk = None \<and> pub_pk oth = None then Inr True
          else if pub_pk pk = None \<or> pub_pk oth = None then Inr False
          else Inr (pub_hpk pk = pub_hpk oth))"

section \<open>Contracts of the imported packages\<close>

text \<open>The variant's key generator of \<open>cpapke\<close>, as \<open>NewKeyFromSeed\<close> selects it.\<close>

definition cpapke_keygen :: "('pk, 'sk, 'w) pkg \<Rightarrow> bytes \<Rightarrow> 'pk \<times> 'sk" where
  "cpapke_keygen T s =
     (if NIST T then cpapke_NewKeyFromSeedMLKEM T s else cpapke_NewKeyFromSeed T s)"

text \<open>Every \<open>cpapke\<close> method fills the buffer of fixed size it is given.\<close>

definition cpapke_sizes :: "('pk, 'sk, 'w) pkg \<Rightarrow> bool" where
  "cpapke_sizes T \<longleftrightarrow>
     (\<forall>p m r. length (cpapke_EncryptTo T p m r) = cpapke_CiphertextSize T)
     \<and> (\<forall>s c. length (cpapke_DecryptTo T s c) = 32)
     \<and> (\<forall>p. length (cpapke_PackPk T p) = cpapke_PublicKeySize T)
     \<and> (\<forall>s. length (cpapke_PackSk T s) = cpapke_PrivateKeySize T)"

text \<open>Decryption inverts encryption, for the keys of a seed of the right length.\<close>

definition cpapke_correct :: "('pk, 'sk, 'w) pkg \<Rightarrow> bool" where
  "cpapke_correct T \<longleftrightarrow>
     (\<forall>s m r. length s = cpapke_KeySeedSize T \<longrightarrow> length m = 32 \<longrightarrow> length r = 32 \<longrightarrow>
        cpapke_DecryptTo T (snd (cpapke_keygen T s))
          (cpapke_EncryptTo T (fst (cpapke_keygen T s)) m r) = m)"

text \<open>Unpacking the packed form of a generated key gives the key back (the private key
  up to \<open>cpapke\<close>'s \<open>Equal\<close>); in the standardized variant \<open>UnpackMLKEM\<close> accepts the
  packed form of a generated public key.\<close>

definition cpapke_roundtrip :: "('pk, 'sk, 'w) pkg \<Rightarrow> bool" where
  "cpapke_roundtrip T \<longleftrightarrow>
     (\<forall>s. length s = cpapke_KeySeedSize T \<longrightarrow>
        (if NIST T
         then cpapke_UnpackMLKEM T (cpapke_PackPk T (fst (cpapke_keygen T s)))
                = (fst (cpapke_keygen T s), None)
         else cpapke_UnpackPk T (cpapke_PackPk T (fst (cpapke_keygen T s)))
                = fst (cpapke_keygen T s))
        \<and> cpapke_UnpackPk T (cpapke_PackPk T (fst (cpapke_keygen T s))) = fst (cpapke_keygen T s)
        \<and> cpapke_EqualSk T (cpapke_UnpackSk T (cpapke_PackSk T (snd (cpapke_keygen T s))))
            (snd (cpapke_keygen T s)))"

text \<open>\<open>UnpackMLKEM\<close> returns an error when the public key is not normalized: a buffer
  it accepts is the packed form of the key it yields.\<close>

definition cpapke_mlkem_check :: "('pk, 'sk, 'w) pkg \<Rightarrow> bool" where
  "cpapke_mlkem_check T \<longleftrightarrow>
     (\<forall>b cpk. length b = cpapke_PublicKeySize T \<longrightarrow>
        cpapke_UnpackMLKEM T b = (cpk, None) \<longrightarrow> cpapke_PackPk T cpk = b)"

text \<open>The array fields of a private key hold 32 bytes each.\<close>

definition PrivateKey_typed :: "('pk, 'sk) PrivateKey \<Rightarrow> bool" where
  "PrivateKey_typed sk \<longleftrightarrow> length (priv_hpk sk) = 32 \<and> length (priv_z sk) = 32"

section \<open>A small instance, to evaluate the package on concrete inputs\<close>

text \<open>
  Keys are byte strings of two bytes, a ciphertext is the message shifted by the key's
  checksum followed by the coins, the hashes are counters started at a checksum of their
  input, and the entropy source holds a number of bytes it can still deliver.
\<close>

definition toy_keygen :: "bytes \<Rightarrow> bytes \<times> bytes" where
  "toy_keygen s = (s, s)"

definition toy_keygen_mlkem :: "bytes \<Rightarrow> bytes \<times> bytes" where
  "toy_keygen_mlkem s = (map (\<lambda>b. b AND 127) s, map (\<lambda>b. b AND 127) s)"

definition toy_encrypt :: "bytes \<Rightarrow> bytes \<Rightarrow> bytes \<Rightarrow> bytes" where
  "toy_encrypt p m r =
     take 64 (map (\<lambda>b. b + sum_list p) (take 32 m) @ take 32 r @ replicate 64 0)"

definition toy_decrypt :: "bytes \<Rightarrow> bytes \<Rightarrow> bytes" where
  "toy_decrypt s c = take 32 (map (\<lambda>b. b - sum_list s) c @ replicate 32 0)"

definition toy_pack :: "bytes \<Rightarrow> bytes" where
  "toy_pack k = take 2 (k @ replicate 2 0)"

definition toy_unpack_mlkem :: "bytes \<Rightarrow> bytes \<times> go_error option" where
  "toy_unpack_mlkem b = (b, if list_all (\<lambda>x. x < 128) b then None else Some ErrPubKey)"

definition toy_rand :: "nat reader" where
  "toy_rand w n =
     (if n \<le> w then (Inr (replicate n 7), w - n) else (Inl (ErrIO ''entropy''), w))"

definition toy :: "bool \<Rightarrow> (bytes, bytes, nat) pkg" where
  "toy nist =
     \<lparr>NIST = nist,
      cpapke_KeySeedSize = 2,
      cpapke_CiphertextSize = 64,
      cpapke_PublicKeySize = 2,
      cpapke_PrivateKeySize = 2,
      cpapke_NewKeyFromSeed = toy_keygen,
      cpapke_NewKeyFromSeedMLKEM = toy_keygen_mlkem,
      cpapke_EncryptTo = toy_encrypt,
      cpapke_DecryptTo = toy_decrypt,
      cpapke_PackPk = toy_pack,
      cpapke_PackSk = toy_pack,
      cpapke_UnpackPk = (\<lambda>b. b),
      cpapke_UnpackMLKEM = toy_unpack_mlkem,
      cpapke_UnpackSk = (\<lambda>b. b),
      cpapke_EqualSk = (\<lambda>a b. a = b),
      sha3_New256 = (\<lambda>x i. sum_list x + of_nat i),
      sha3_New512 = (\<lambda>x i. 3 * sum_list x + of_nat i + 1),
      sha3_NewShake256 = (\<lambda>x i. 5 * sum_list x + of_nat i + 2),
      cryptoRand_Reader = toy_rand\<rparr>"

text \<open>The same instance with an \<open>Unpack\<close> that normalizes: it clears the top bit of every
  byte, so that a buffer with such a bit set is not the packed form of the key unpacked
  from it.\<close>

definition toyN :: "bool \<Rightarrow> (bytes, bytes, nat) pkg" where
  "toyN nist =
     (toy nist)\<lparr>cpapke_UnpackPk := map (\<lambda>b. b AND 127),
                 cpapke_UnpackMLKEM :=
                   (\<lambda>b. (map (\<lambda>x. x AND 127) b,
                          if list_all (\<lambda>x. x < 128) b then None else Some ErrPubKey))\<rparr>"

section \<open>Decapsulation as the specification words it\<close>

text \<open>
  The specification's steps: \<open>m' = Decrypt(sk, ct)\<close>, \<open>(K'', r') = Hash512(m' \<parallel> hpk)\<close>,
  \<open>ct' = Encrypt(pk, m', r')\<close>; the standardized variant releases the first
  \<open>SharedKeySize\<close> bytes of the digest when \<open>ct = ct'\<close> and \<open>SHAKE256(z \<parallel> ct)\<close> otherwise;
  the pre-standard variant releases SHAKE256 of 64 bytes: \<open>K''\<close>, or \<open>z\<close> when
  \<open>ct \<noteq> ct'\<close>, followed by \<open>Hash256(ct)\<close>.
\<close>

definition spec_Decapsulate ::
  "('pk, 'sk, 'w) pkg \<Rightarrow> 'sk \<Rightarrow> 'pk \<Rightarrow> bytes \<Rightarrow> bytes \<Rightarrow> bytes \<Rightarrow> bytes" where
  "spec_Decapsulate T csk cpk hpk z ct =
     (let m' = cpapke_DecryptTo T csk ct;
          digest = sha3_Read (sha3_New512 T (m' @ hpk)) 64;
          ct' = cpapke_EncryptTo T cpk m' (drop 32 digest)
      in if NIST T
         then (if ct = ct' then take SharedKeySize digest
               else sha3_Read (sha3_NewShake256 T (z @ ct)) SharedKeySize)
         else sha3_Read (sha3_NewShake256 T
                ((if ct = ct' then take 32 digest else z)
                 @ sha3_Read (sha3_New256 T ct) 32)) SharedKeySize)"

section \<open>The invariant of the cached hash\<close>

text \<open>\<open>hpk\<close> is the 256-bit hash of the packed form of the key's \<open>cpapke\<close> public key.\<close>

definition PublicKey_hpk_ok :: "('pk, 'sk, 'w) pkg \<Rightarrow> 'pk PublicKey \<Rightarrow> bool" where
  "PublicKey_hpk_ok T pk =
     (case pub_pk pk of
        None \<Rightarrow> False
      | Some cpk \<Rightarrow> pub_hpk pk = sha3_Read (sha3_New256 T (cpapke_PackPk T cpk)) 32)"

definition PrivateKey_hpk_ok :: "('pk, 'sk, 'w) pkg \<Rightarrow> ('pk, 'sk) PrivateKey \<Rightarrow> bool" where
  "PrivateKey_hpk_ok T sk =
     (case priv_pk sk of
        None \<Rightarrow> False
      | Some cpk \<Rightarrow> priv_hpk sk = sha3_Read (sha3_New256 T (cpapke_PackPk T cpk)) 32)"

text \<open>The keys of the seed of 34 bytes 1, in either variant of the small instance.\<close>

definition ex_pk :: "bytes PublicKey" where
  "ex_pk = \<lparr>pub_pk = Some [1, 1], pub_hpk = map of_nat [2..<34]\<rparr>"

definition ex_sk :: "(bytes, bytes) PrivateKey" where
  "ex_sk = \<lparr>priv_sk = Some [1, 1], priv_pk = Some [1, 1],
            priv_hpk = map of_nat [2..<34], priv_z = replicate 32 1\<rparr>"

section \<open>Facts about the helpers\<close>

lemma xor_zero_iff: "(a::byte) XOR b = 0 \<longleftrightarrow> a = b"
proof
  assume h: "a XOR b = 0"
  have "a XOR (a XOR b) = b" by (simp flip: xor.assoc)
  with h show "a = b" by simp
qed simp

lemma ConstantTimeByteEq_same: "ConstantTimeByteEq x x = 1"
  by (simp add: ConstantTimeByteEq_def drop_bit_eq_div)

lemma ConstantTimeByteEq_diff:
  assumes "x \<noteq> y" shows "ConstantTimeByteEq x y = 0"
proof -
  define z where "z = x XOR y"
  have nz: "z \<noteq> 0" using assms by (simp add: z_def xor_zero_iff)
  have lt: "unat z < 256" using unsigned_less [of z, where ?'a = nat] by simp
  then have "unat z < 2 ^ 32" by simp
  then have u: "unat (ucast z :: 32 word) = unat z"
    by (simp add: unsigned_ucast_eq take_bit_nat_eq_self)
  have unz: "(ucast z :: 32 word) \<noteq> 0" using nz u by (metis unat_eq_zero)
  from lt have "unat z - 1 < 2 ^ 31" by simp
  then have "unat ((ucast z :: 32 word) - 1) < 2 ^ 31" using unat_minus_one [OF unz] u by simp
  then have "unat (drop_bit 31 ((ucast z :: 32 word) - 1)) = 0"
    unfolding unat_drop_bit_eq by (simp add: drop_bit_eq_div)
  then show ?thesis unfolding ConstantTimeByteEq_def z_def [symmetric]
    by (simp add: unat_eq_zero)
qed

lemma fold_or_zero:
  "fold (\<lambda>(a, b) v. v OR (a XOR b)) (zip x y) (acc::byte) = 0
     \<longleftrightarrow> acc = 0 \<and> (\<forall>(a, b) \<in> set (zip x y). a = b)"
proof (induction x arbitrary: y acc)
  case Nil
  then show ?case by simp
next
  case (Cons a x)
  show ?case
  proof (cases y)
    case Nil
    then show ?thesis by simp
  next
    case (Cons b ys)
    have "a XOR b = 0 \<longleftrightarrow> a = b" by (rule xor_zero_iff)
    then show ?thesis using Cons.IH [of ys "acc OR (a XOR b)"] Cons
      by (auto simp: or_eq_0_iff)
  qed
qed

lemma zip_all_eq:
  "length x = length y \<Longrightarrow> (\<forall>(a, b) \<in> set (zip x y). a = b) \<longleftrightarrow> x = y"
  by (induction x y rule: list_induct2) auto

lemma ConstantTimeCompare_eq: "ConstantTimeCompare x y = (if x = y then 1 else 0)"
  using fold_or_zero [of x y 0] zip_all_eq [of x y]
    ConstantTimeByteEq_diff ConstantTimeByteEq_same
  by (auto simp: ConstantTimeCompare_def)

lemma ConstantTimeCopy_one: "length x = length y \<Longrightarrow> ConstantTimeCopy 1 x y = Some y"
  unfolding ConstantTimeCopy_def by (induction x y rule: list_induct2) auto

lemma ConstantTimeCopy_zero: "length x = length y \<Longrightarrow> ConstantTimeCopy 0 x y = Some x"
  unfolding ConstantTimeCopy_def by (induction x y rule: list_induct2) auto

lemma length_sha3_Read: "length (sha3_Read h n) = n"
  by (simp add: sha3_Read_def)

lemma take_sha3_Read: "k \<le> n \<Longrightarrow> take k (sha3_Read h n) = sha3_Read h k"
  by (simp add: sha3_Read_def take_map)

lemma copy_bytes_same_length: "length dst = length src \<Longrightarrow> copy_bytes dst src = src"
  by (simp add: copy_bytes_def)

section \<open>The small instance meets the contracts\<close>

lemma toy_sizes: "cpapke_sizes (toy nist)"
  by (auto simp: cpapke_sizes_def toy_def toy_encrypt_def toy_decrypt_def toy_pack_def)

lemma toy_decrypt_encrypt:
  assumes "length m = 32" "length r = 32"
  shows "toy_decrypt k (toy_encrypt k m r) = m"
proof -
  have e: "toy_encrypt k m r = map (\<lambda>b. b + sum_list k) m @ r"
    using assms by (simp add: toy_encrypt_def)
  show ?thesis unfolding e using assms by (simp add: toy_decrypt_def comp_def)
qed

lemma toy_correct: "cpapke_correct (toy nist)"
  by (simp add: cpapke_correct_def cpapke_keygen_def toy_def toy_keygen_def
      toy_keygen_mlkem_def toy_decrypt_encrypt)

lemma and_127_less: "(b::byte) AND 127 < 128"
proof -
  have "b AND 127 \<le> 127" by (rule word_and_le1)
  then show ?thesis by (simp add: word_le_nat_alt word_less_nat_alt)
qed

lemma toy_roundtrip: "cpapke_roundtrip (toy nist)"
  by (simp add: cpapke_roundtrip_def cpapke_keygen_def toy_def toy_keygen_def
      toy_keygen_mlkem_def toy_pack_def toy_unpack_mlkem_def list_all_iff and_127_less)

lemma toy_mlkem_check: "cpapke_mlkem_check (toy nist)"
  by (auto simp: cpapke_mlkem_check_def toy_def toy_pack_def toy_unpack_mlkem_def)

text \<open>The normalizing instance meets the contract of \<open>UnpackMLKEM\<close> as well.\<close>

lemma and_127_id: "(x::byte) < 128 \<Longrightarrow> x AND 127 = x"
  using less_mask_eq [of x 7] by (simp add: mask_eq_exp_minus_1)

lemma map_and_127_id:
  "list_all (\<lambda>x. x < 128) (b::bytes) \<Longrightarrow> map (\<lambda>x. x AND 127) b = b"
  by (induction b) (simp_all add: and_127_id)

lemma toyN_mlkem_check: "cpapke_mlkem_check (toyN nist)"
  by (auto simp: cpapke_mlkem_check_def toyN_def toy_def toy_pack_def map_and_127_id
      split: if_splits)

section \<open>What the operations compute\<close>

lemma NewKeyFromSeed_fields:
  assumes "NewKeyFromSeed T seed = Inr (pk, sk)"
  shows "length seed = KeySeedSize T"
    and "pub_pk pk = Some (fst (cpapke_keygen T (take (cpapke_KeySeedSize T) seed)))"
    and "priv_pk sk = Some (fst (cpapke_keygen T (take (cpapke_KeySeedSize T) seed)))"
    and "priv_sk sk = Some (snd (cpapke_keygen T (take (cpapke_KeySeedSize T) seed)))"
    and "pub_hpk pk = sha3_Read (sha3_New256 T (cpapke_PackPk T
           (fst (cpapke_keygen T (take (cpapke_KeySeedSize T) seed))))) 32"
    and "priv_hpk sk = pub_hpk pk"
    and "priv_z sk = drop (cpapke_KeySeedSize T) seed"
  using assms
  by (auto simp: NewKeyFromSeed_def cpapke_keygen_def Let_def KeySeedSize_def
      copy_bytes_same_length length_sha3_Read split: if_splits prod.splits)

lemma DecapsulateTo_value:
  assumes "priv_sk sk = Some csk" and "priv_pk sk = Some cpk"
    and "length (priv_z sk) = 32"
    and "length ct = CiphertextSize T" and "length ss = SharedKeySize"
  shows "DecapsulateTo T sk ss ct
           = (None, spec_Decapsulate T csk cpk (priv_hpk sk) (priv_z sk) ct)"
  using assms
  by (simp add: DecapsulateTo_def spec_Decapsulate_def Let_def ConstantTimeCompare_eq
      ConstantTimeCopy_one ConstantTimeCopy_zero length_sha3_Read take_sha3_Read
      copy_bytes_same_length SharedKeySize_def)

lemma EncapsulateTo_value:
  assumes "cpapke_sizes T" and "pub_pk pk = Some cpk"
    and "length seed = EncapsulationSeedSize"
    and "length ct = CiphertextSize T" and "length ss = SharedKeySize"
  shows "EncapsulateTo T pk ct ss (Some seed) w =
           (let m = (if NIST T then seed else sha3_Read (sha3_New256 T seed) 32);
                digest = sha3_Read (sha3_New512 T (m @ pub_hpk pk)) 64;
                K' = take 32 digest;
                r = drop 32 digest;
                ciphertext = cpapke_EncryptTo T cpk m r
            in (None, ciphertext,
                (if NIST T then take SharedKeySize digest
                 else sha3_Read (sha3_NewShake256 T
                        (K' @ sha3_Read (sha3_New256 T ciphertext) 32)) SharedKeySize),
                w))"
  using assms
  by (simp add: EncapsulateTo_def Let_def cpapke_sizes_def CiphertextSize_def
      EncapsulationSeedSize_def SharedKeySize_def copy_bytes_same_length
      length_sha3_Read take_sha3_Read)

lemma NewKeyFromSeed_hpk_ok:
  assumes "NewKeyFromSeed T seed = Inr (pk, sk)"
  shows "PublicKey_hpk_ok T pk \<and> PrivateKey_hpk_ok T sk"
  using NewKeyFromSeed_fields [OF assms]
  by (simp add: PublicKey_hpk_ok_def PrivateKey_hpk_ok_def)

lemma GenerateKeyPair_hpk_ok:
  assumes "GenerateKeyPair T rand w = (Inr (pk, sk), w')"
  shows "PublicKey_hpk_ok T pk \<and> PrivateKey_hpk_ok T sk"
proof -
  obtain seed where "NewKeyFromSeed T seed = Inr (pk, sk)"
    using assms by (auto simp: GenerateKeyPair_def Let_def split: prod.splits sum.splits)
  then show ?thesis by (rule NewKeyFromSeed_hpk_ok)
qed

text \<open>\<open>PublicKey.Unpack\<close> stores the hash of the caller's buffer.\<close>

lemma PublicKey_Unpack_hashes_buffer:
  assumes "PublicKey_Unpack T pk0 buf = (None, pk)"
  shows "length buf = cpapke_PublicKeySize T"
    and "pub_hpk pk = sha3_Read (sha3_New256 T buf) 32"
    and "NIST T \<Longrightarrow> cpapke_UnpackMLKEM T buf = (the (pub_pk pk), None)"
    and "\<not> NIST T \<Longrightarrow> pub_pk pk = Some (cpapke_UnpackPk T buf)"
    and "pub_pk pk \<noteq> None"
  using assms
  by (auto simp: PublicKey_Unpack_def PublicKeySize_def
      split: if_splits prod.splits option.splits)

lemma PublicKey_Unpack_standard_hpk_ok:
  assumes "cpapke_mlkem_check T" and "NIST T"
    and "PublicKey_Unpack T pk0 buf = (None, pk)"
  shows "PublicKey_hpk_ok T pk"
proof -
  note f = PublicKey_Unpack_hashes_buffer [OF assms(3)]
  obtain cpk where c: "pub_pk pk = Some cpk" using f(5) by blast
  have "cpapke_UnpackMLKEM T buf = (cpk, None)" using f(3) [OF assms(2)] c by simp
  then have "cpapke_PackPk T cpk = buf"
    using assms(1) f(1) by (simp add: cpapke_mlkem_check_def)
  then show ?thesis using c f(2) by (simp add: PublicKey_hpk_ok_def)
qed

lemma PublicKey_Unpack_prestandard_hpk:
  assumes "\<not> NIST T" and "PublicKey_Unpack T pk0 buf = (None, pk)"
  shows "pub_hpk pk = sha3_Read (sha3_New256 T buf) 32"
    and "PublicKey_hpk_ok T pk \<longleftrightarrow>
           sha3_Read (sha3_New256 T (cpapke_PackPk T (cpapke_UnpackPk T buf))) 32
           = sha3_Read (sha3_New256 T buf) 32"
proof -
  note f = PublicKey_Unpack_hashes_buffer [OF assms(2)]
  show "pub_hpk pk = sha3_Read (sha3_New256 T buf) 32" by (rule f(2))
  show "PublicKey_hpk_ok T pk \<longleftrightarrow>
           sha3_Read (sha3_New256 T (cpapke_PackPk T (cpapke_UnpackPk T buf))) 32
           = sha3_Read (sha3_New256 T buf) 32"
    using f(2) f(4) [OF assms(1)] by (auto simp: PublicKey_hpk_ok_def)
qed

text \<open>\<open>PrivateKey.Unpack\<close> takes \<open>hpk\<close> from the buffer; the standardized variant accepts
  the buffer when these bytes are the hash of the embedded public-key bytes.\<close>

lemma PrivateKey_Unpack_fields:
  assumes "PrivateKey_typed sk0" and "length buf = PrivateKeySize T"
  shows "priv_pk (snd (PrivateKey_Unpack T sk0 buf)) =
           Some (cpapke_UnpackPk T
             (take (cpapke_PublicKeySize T) (drop (cpapke_PrivateKeySize T) buf)))"
    and "priv_hpk (snd (PrivateKey_Unpack T sk0 buf)) =
           take 32 (drop (cpapke_PublicKeySize T) (drop (cpapke_PrivateKeySize T) buf))"
    and "fst (PrivateKey_Unpack T sk0 buf) = None \<longleftrightarrow>
           (NIST T \<longrightarrow>
              take 32 (drop (cpapke_PublicKeySize T) (drop (cpapke_PrivateKeySize T) buf))
              = sha3_Read (sha3_New256 T
                  (take (cpapke_PublicKeySize T) (drop (cpapke_PrivateKeySize T) buf))) 32)"
  using assms
  by (auto simp: PrivateKey_Unpack_def PrivateKeySize_def PrivateKey_typed_def Let_def
      copy_bytes_same_length)

lemma PrivateKey_Unpack_standard_hpk:
  assumes "NIST T" and "PrivateKey_typed sk0"
    and "PrivateKey_Unpack T sk0 buf = (None, sk)"
  shows "priv_hpk sk = sha3_Read (sha3_New256 T
           (take (cpapke_PublicKeySize T) (drop (cpapke_PrivateKeySize T) buf))) 32"
    and "PrivateKey_hpk_ok T sk \<longleftrightarrow>
           sha3_Read (sha3_New256 T (cpapke_PackPk T (cpapke_UnpackPk T
             (take (cpapke_PublicKeySize T) (drop (cpapke_PrivateKeySize T) buf))))) 32
           = sha3_Read (sha3_New256 T
               (take (cpapke_PublicKeySize T) (drop (cpapke_PrivateKeySize T) buf))) 32"
proof -
  have len: "length buf = PrivateKeySize T"
    using assms(3) by (auto simp: PrivateKey_Unpack_def split: if_splits)
  note f = PrivateKey_Unpack_fields [OF assms(2) len]
  have sk: "snd (PrivateKey_Unpack T sk0 buf) = sk"
    and ok: "fst (PrivateKey_Unpack T sk0 buf) = None"
    using assms(3) by simp_all
  show h: "priv_hpk sk = sha3_Read (sha3_New256 T
           (take (cpapke_PublicKeySize T) (drop (cpapke_PrivateKeySize T) buf))) 32"
    using f(2) f(3) ok assms(1) sk by simp
  show "PrivateKey_hpk_ok T sk \<longleftrightarrow>
           sha3_Read (sha3_New256 T (cpapke_PackPk T (cpapke_UnpackPk T
             (take (cpapke_PublicKeySize T) (drop (cpapke_PrivateKeySize T) buf))))) 32
           = sha3_Read (sha3_New256 T
               (take (cpapke_PublicKeySize T) (drop (cpapke_PrivateKeySize T) buf))) 32"
    using f(1) h sk by (auto simp: PrivateKey_hpk_ok_def)
qed

text \<open>In the pre-standard variant \<open>PrivateKey.Unpack\<close> accepts every buffer of the right
  length; the result breaks the invariant whenever the embedded \<open>hpk\<close> bytes are not the
  hash of the packed form of the unpacked public key.\<close>

lemma PrivateKey_Unpack_prestandard_unchecked:
  assumes "\<not> NIST T" and "PrivateKey_typed sk0" and "length buf = PrivateKeySize T"
  shows "fst (PrivateKey_Unpack T sk0 buf) = None"
    and "PrivateKey_hpk_ok T (snd (PrivateKey_Unpack T sk0 buf)) \<longleftrightarrow>
           take 32 (drop (cpapke_PublicKeySize T) (drop (cpapke_PrivateKeySize T) buf))
           = sha3_Read (sha3_New256 T (cpapke_PackPk T (cpapke_UnpackPk T
               (take (cpapke_PublicKeySize T) (drop (cpapke_PrivateKeySize T) buf))))) 32"
  using PrivateKey_Unpack_fields [OF assms(2,3)] assms(1)
  by (simp_all add: PrivateKey_hpk_ok_def)

lemma PrivateKey_Unpack_size:
  "length buf \<noteq> PrivateKeySize T \<Longrightarrow>
     PrivateKey_Unpack T sk buf =
       (Some (if NIST T then Error ErrPrivKeySize
              else Panic (PanicMsg ''buf must be of length PrivateKeySize'')), sk)"
  by (simp add: PrivateKey_Unpack_def)

section \<open>Encapsulation followed by decapsulation\<close>

text \<open>
  C1. For a key pair that \<open>NewKeyFromSeed\<close> derives from a seed and an encapsulation seed
  of \<open>EncapsulationSeedSize\<close> bytes, \<open>EncapsulateTo\<close> produces a ciphertext and a shared key,
  and \<open>DecapsulateTo\<close> on that ciphertext returns exactly that shared key, in both variants,
  provided that decryption inverts encryption in \<open>cpapke\<close>.
\<close>

theorem Decapsulate_Encapsulate:
  assumes sizes: "cpapke_sizes T" and correct: "cpapke_correct T"
    and keys: "NewKeyFromSeed T kseed = Inr (pk, sk)"
    and seed: "length seed = EncapsulationSeedSize"
    and ct: "length ct = CiphertextSize T" and ss: "length ss = SharedKeySize"
    and ss0: "length ss0 = SharedKeySize"
  shows "\<exists>ct' ss'. EncapsulateTo T pk ct ss (Some seed) w = (None, ct', ss', w)
           \<and> DecapsulateTo T sk ss0 ct' = (None, ss')"
proof -
  define s where "s = take (cpapke_KeySeedSize T) kseed"
  define cpk where "cpk = fst (cpapke_keygen T s)"
  define csk where "csk = snd (cpapke_keygen T s)"
  define m where "m = (if NIST T then seed else sha3_Read (sha3_New256 T seed) 32)"
  define digest where "digest = sha3_Read (sha3_New512 T (m @ pub_hpk pk)) 64"
  define ct' where "ct' = cpapke_EncryptTo T cpk m (drop 32 digest)"
  note f = NewKeyFromSeed_fields [OF keys, folded s_def, folded cpk_def csk_def]
  have ls: "length s = cpapke_KeySeedSize T"
    using f(1) by (simp add: s_def KeySeedSize_def)
  have lm: "length m = 32"
    using seed by (simp add: m_def EncapsulationSeedSize_def length_sha3_Read)
  have lr: "length (drop 32 digest) = 32"
    by (simp add: digest_def length_sha3_Read)
  have dec: "cpapke_DecryptTo T csk ct' = m"
    using correct ls lm lr by (simp add: cpapke_correct_def ct'_def cpk_def csk_def)
  have lct': "length ct' = CiphertextSize T"
    using sizes by (simp add: cpapke_sizes_def ct'_def CiphertextSize_def)
  have lz: "length (priv_z sk) = 32"
    using f(1,7) by (simp add: KeySeedSize_def)
  have enc: "EncapsulateTo T pk ct ss (Some seed) w =
     (None, ct',
      (if NIST T then take SharedKeySize digest
       else sha3_Read (sha3_NewShake256 T
              (take 32 digest @ sha3_Read (sha3_New256 T ct') 32)) SharedKeySize), w)"
    using EncapsulateTo_value [OF sizes f(2) seed ct ss, of w]
    by (simp add: Let_def m_def digest_def ct'_def)
  have decaps: "DecapsulateTo T sk ss0 ct' =
     (None, spec_Decapsulate T csk cpk (priv_hpk sk) (priv_z sk) ct')"
    using DecapsulateTo_value [OF f(4) f(3) lz lct' ss0] .
  have "spec_Decapsulate T csk cpk (priv_hpk sk) (priv_z sk) ct' =
      (if NIST T then take SharedKeySize digest
       else sha3_Read (sha3_NewShake256 T
              (take 32 digest @ sha3_Read (sha3_New256 T ct') 32)) SharedKeySize)"
    using dec f(6) by (simp add: spec_Decapsulate_def Let_def digest_def ct'_def)
  with enc decaps show ?thesis by simp
qed

theorem Decapsulate_Encapsulate_witness:
  "NewKeyFromSeed (toy True) (replicate 34 1) = Inr (ex_pk, ex_sk)
   \<and> EncapsulateTo (toy True) ex_pk (replicate 64 0) (replicate 32 0)
        (Some (replicate 32 9)) (0::nat)
       = (None, replicate 32 11 @ map of_nat [17..<49],
          map of_nat [241..<256] @ map of_nat [0..<17], 0)
   \<and> DecapsulateTo (toy True) ex_sk (replicate 32 0)
        (replicate 32 11 @ map of_nat [17..<49])
       = (None, map of_nat [241..<256] @ map of_nat [0..<17])"
proof -
  have k: "NewKeyFromSeed (toy True) (replicate 34 1) = Inr (ex_pk, ex_sk)"
    by code_simp
  have e: "EncapsulateTo (toy True) ex_pk (replicate 64 0) (replicate 32 0)
        (Some (replicate 32 9)) (0::nat)
       = (None, replicate 32 11 @ map of_nat [17..<49],
          map of_nat [241..<256] @ map of_nat [0..<17], 0)"
    by code_simp
  have l: "length (replicate 32 (9::byte)) = EncapsulationSeedSize"
    "length (replicate 64 (0::byte)) = CiphertextSize (toy True)"
    "length (replicate 32 (0::byte)) = SharedKeySize"
    by (simp_all add: EncapsulationSeedSize_def CiphertextSize_def SharedKeySize_def toy_def)
  from Decapsulate_Encapsulate [OF toy_sizes toy_correct k l(1) l(2) l(3) l(3), of 0]
  obtain ct' ss' where
    "EncapsulateTo (toy True) ex_pk (replicate 64 0) (replicate 32 0)
        (Some (replicate 32 9)) (0::nat) = (None, ct', ss', 0)"
    "DecapsulateTo (toy True) ex_sk (replicate 32 0) ct' = (None, ss')"
    by blast
  with e k show ?thesis by simp
qed

section \<open>Decapsulation\<close>



text \<open>
  C3. \<open>DecapsulateTo\<close> is a function of the private key and the ciphertext alone: for a
  ciphertext of length \<open>CiphertextSize\<close>, whether or not an encapsulation produced it, two
  calls with output buffers of any previous content end the same way, the call returns
  normally exactly when the key's two pointers are set, and then both calls leave the same
  \<open>SharedKeySize\<close> bytes in the output buffer, in both variants.
\<close>

theorem DecapsulateTo_deterministic:
  assumes "length ct = CiphertextSize T"
    and "length ss1 = SharedKeySize" and "length ss2 = SharedKeySize"
    and "length (priv_z sk) = 32"
  shows "fst (DecapsulateTo T sk ss1 ct) = fst (DecapsulateTo T sk ss2 ct)
       \<and> (fst (DecapsulateTo T sk ss1 ct) = None
            \<longleftrightarrow> priv_sk sk \<noteq> None \<and> priv_pk sk \<noteq> None)
       \<and> (fst (DecapsulateTo T sk ss1 ct) = None \<longrightarrow>
            snd (DecapsulateTo T sk ss1 ct) = snd (DecapsulateTo T sk ss2 ct)
            \<and> length (snd (DecapsulateTo T sk ss1 ct)) = SharedKeySize)"
  using assms
  by (auto simp: DecapsulateTo_def Let_def ConstantTimeCompare_eq
      ConstantTimeCopy_one ConstantTimeCopy_zero length_sha3_Read take_sha3_Read
      copy_bytes_same_length SharedKeySize_def split: option.splits)

theorem DecapsulateTo_deterministic_witness:
  "DecapsulateTo (toy False) ex_sk (replicate 32 0) (replicate 64 0)
     = (None, map of_nat [82..<114])
   \<and> snd (DecapsulateTo (toy False) ex_sk (replicate 32 255) (replicate 64 0))
     = snd (DecapsulateTo (toy False) ex_sk (replicate 32 0) (replicate 64 0))"
proof -
  have v: "DecapsulateTo (toy False) ex_sk (replicate 32 0) (replicate 64 0)
     = (None, map of_nat [82..<114])"
    by code_simp
  have l: "length (replicate 64 (0::byte)) = CiphertextSize (toy False)"
    "length (replicate 32 (0::byte)) = SharedKeySize"
    "length (replicate 32 (255::byte)) = SharedKeySize"
    "length (priv_z ex_sk) = 32"
    by (simp_all add: CiphertextSize_def SharedKeySize_def toy_def ex_sk_def)
  show ?thesis
    using DecapsulateTo_deterministic [OF l(1) l(2) l(3) l(4)] v by simp
qed

section \<open>The cached hash of the public key\<close>

text \<open>
  C4, as it holds of the code. The stored \<open>hpk\<close> is the 256-bit hash of the packed form of
  the key's \<open>cpapke\<close> public key for both keys returned by \<open>NewKeyFromSeed\<close> and by
  \<open>GenerateKeyPair\<close> in either variant, and for a public key that the standardized
  \<open>PublicKey.Unpack\<close> accepts, whose \<open>UnpackMLKEM\<close> accepts only the packed form of the key
  it yields. The pre-standard \<open>PublicKey.Unpack\<close> and the standardized \<open>PrivateKey.Unpack\<close>,
  when it accepts, store the hash of the public-key bytes of the caller's buffer: this is
  the hash of the packed form of the unpacked key exactly when the two hashes agree, as
  they do when the buffer is that packed form, and it is not for a buffer that \<open>Unpack\<close>
  normalizes to another key. The pre-standard \<open>PrivateKey.Unpack\<close> copies \<open>hpk\<close> from the
  buffer unchecked and is left out.
\<close>

theorem hpk_invariant:
  "(NewKeyFromSeed T seed = Inr (pk, sk)
      \<longrightarrow> PublicKey_hpk_ok T pk \<and> PrivateKey_hpk_ok T sk)
   \<and> (GenerateKeyPair T rand w = (Inr (pk1, sk1), w')
      \<longrightarrow> PublicKey_hpk_ok T pk1 \<and> PrivateKey_hpk_ok T sk1)
   \<and> (NIST T \<longrightarrow> cpapke_mlkem_check T \<longrightarrow> PublicKey_Unpack T pk0 bufP = (None, pk2)
      \<longrightarrow> PublicKey_hpk_ok T pk2)
   \<and> (\<not> NIST T \<longrightarrow> PublicKey_Unpack T pk0 bufP = (None, pk2)
      \<longrightarrow> pub_hpk pk2 = sha3_Read (sha3_New256 T bufP) 32
          \<and> (PublicKey_hpk_ok T pk2 \<longleftrightarrow>
               sha3_Read (sha3_New256 T (cpapke_PackPk T (cpapke_UnpackPk T bufP))) 32
               = sha3_Read (sha3_New256 T bufP) 32))
   \<and> (NIST T \<longrightarrow> PrivateKey_typed sk0 \<longrightarrow> PrivateKey_Unpack T sk0 bufS = (None, sk2)
      \<longrightarrow> priv_hpk sk2 = sha3_Read (sha3_New256 T
             (take (cpapke_PublicKeySize T) (drop (cpapke_PrivateKeySize T) bufS))) 32
          \<and> (PrivateKey_hpk_ok T sk2 \<longleftrightarrow>
               sha3_Read (sha3_New256 T (cpapke_PackPk T (cpapke_UnpackPk T
                 (take (cpapke_PublicKeySize T) (drop (cpapke_PrivateKeySize T) bufS))))) 32
               = sha3_Read (sha3_New256 T
                   (take (cpapke_PublicKeySize T) (drop (cpapke_PrivateKeySize T) bufS))) 32))"
  using NewKeyFromSeed_hpk_ok [of T seed pk sk]
    GenerateKeyPair_hpk_ok [of T rand w pk1 sk1 w']
    PublicKey_Unpack_standard_hpk_ok [of T pk0 bufP pk2]
    PublicKey_Unpack_prestandard_hpk [of T pk0 bufP pk2]
    PrivateKey_Unpack_standard_hpk [of T sk0 bufS sk2]
  by blast

text \<open>On the small instance the keys of a seed, of the entropy source and of the
  standardized \<open>PublicKey.Unpack\<close> satisfy the invariant, and so does the private key
  unpacked from a buffer that is a packed form. With the normalizing \<open>Unpack\<close> the
  standardized \<open>PublicKey.Unpack\<close> still gives a key that satisfies it, while the
  pre-standard \<open>PublicKey.Unpack\<close> of \<open>[200, 1]\<close> and the standardized \<open>PrivateKey.Unpack\<close>
  of a buffer that embeds \<open>[200, 1]\<close> and its hash are accepted and do not.\<close>

theorem hpk_invariant_witness:
  "PublicKey_hpk_ok (toy True) ex_pk \<and> PrivateKey_hpk_ok (toy True) ex_sk
   \<and> PublicKey_hpk_ok (toy True)
        \<lparr>pub_pk = Some [7, 7], pub_hpk = map of_nat [14..<46]\<rparr>
   \<and> PublicKey_hpk_ok (toy True)
        \<lparr>pub_pk = Some [1, 1], pub_hpk = map of_nat [2..<34]\<rparr>
   \<and> PrivateKey_hpk_ok (toy True)
        \<lparr>priv_sk = Some [0, 0], priv_pk = Some [0, 0],
           priv_hpk = map of_nat [0..<32], priv_z = replicate 32 0\<rparr>
   \<and> PublicKey_hpk_ok (toyN True)
        \<lparr>pub_pk = Some [1, 1], pub_hpk = map of_nat [2..<34]\<rparr>
   \<and> PublicKey_Unpack (toyN False) zero_PublicKey [200, 1]
        = (None, \<lparr>pub_pk = Some [72, 1], pub_hpk = map of_nat [201..<233]\<rparr>)
   \<and> \<not> PublicKey_hpk_ok (toyN False)
          \<lparr>pub_pk = Some [72, 1], pub_hpk = map of_nat [201..<233]\<rparr>
   \<and> PrivateKey_Unpack (toyN True) zero_PrivateKey
        ([0, 0, 200, 1] @ map of_nat [201..<233] @ replicate 32 0)
        = (None, \<lparr>priv_sk = Some [0, 0], priv_pk = Some [72, 1],
                   priv_hpk = map of_nat [201..<233], priv_z = replicate 32 0\<rparr>)
   \<and> \<not> PrivateKey_hpk_ok (toyN True)
          \<lparr>priv_sk = Some [0, 0], priv_pk = Some [72, 1],
             priv_hpk = map of_nat [201..<233], priv_z = replicate 32 0\<rparr>"
proof -
  have k: "NewKeyFromSeed (toy True) (replicate 34 1) = Inr (ex_pk, ex_sk)"
    by code_simp
  have g: "GenerateKeyPair (toy True) None (40::nat) =
     (Inr (\<lparr>pub_pk = Some [7, 7], pub_hpk = map of_nat [14..<46]\<rparr>,
           \<lparr>priv_sk = Some [7, 7], priv_pk = Some [7, 7],
              priv_hpk = map of_nat [14..<46], priv_z = replicate 32 7\<rparr>), 6)"
    by code_simp
  have p: "PublicKey_Unpack (toy True) zero_PublicKey [1, 1] =
     (None, \<lparr>pub_pk = Some [1, 1], pub_hpk = map of_nat [2..<34]\<rparr>)"
    by code_simp
  have s: "PrivateKey_Unpack (toy True) zero_PrivateKey
             ([0, 0, 0, 0] @ map of_nat [0..<32] @ replicate 32 0) =
     (None, \<lparr>priv_sk = Some [0, 0], priv_pk = Some [0, 0],
               priv_hpk = map of_nat [0..<32], priv_z = replicate 32 0\<rparr>)"
    by code_simp
  have sh: "sha3_Read (sha3_New256 (toy True) (cpapke_PackPk (toy True)
               (cpapke_UnpackPk (toy True)
                 (take (cpapke_PublicKeySize (toy True))
                    (drop (cpapke_PrivateKeySize (toy True))
                       ([0, 0, 0, 0] @ map of_nat [0..<32] @ replicate 32 0)))))) 32
            = sha3_Read (sha3_New256 (toy True)
                 (take (cpapke_PublicKeySize (toy True))
                    (drop (cpapke_PrivateKeySize (toy True))
                       ([0, 0, 0, 0] @ map of_nat [0..<32] @ replicate 32 0)))) 32"
    by code_simp
  have t: "PrivateKey_typed (zero_PrivateKey :: (bytes, bytes) PrivateKey)"
    by (simp add: PrivateKey_typed_def zero_PrivateKey_def)
  have n: "NIST (toy True)" "NIST (toyN True)" "\<not> NIST (toyN False)"
    by (simp_all add: toy_def toyN_def)
  have pn: "PublicKey_Unpack (toyN False) zero_PublicKey [200, 1]
        = (None, \<lparr>pub_pk = Some [72, 1], pub_hpk = map of_nat [201..<233]\<rparr>)"
    by code_simp
  have pnh: "sha3_Read (sha3_New256 (toyN False) (cpapke_PackPk (toyN False)
                (cpapke_UnpackPk (toyN False) [200, 1]))) 32
             \<noteq> sha3_Read (sha3_New256 (toyN False) [200, 1]) 32"
    by code_simp
  have sn: "PrivateKey_Unpack (toyN True) zero_PrivateKey
        ([0, 0, 200, 1] @ map of_nat [201..<233] @ replicate 32 0)
        = (None, \<lparr>priv_sk = Some [0, 0], priv_pk = Some [72, 1],
                   priv_hpk = map of_nat [201..<233], priv_z = replicate 32 0\<rparr>)"
    by code_simp
  have snh: "sha3_Read (sha3_New256 (toyN True) (cpapke_PackPk (toyN True)
                (cpapke_UnpackPk (toyN True)
                  (take (cpapke_PublicKeySize (toyN True))
                     (drop (cpapke_PrivateKeySize (toyN True))
                        ([0, 0, 200, 1] @ map of_nat [201..<233] @ replicate 32 0)))))) 32
             \<noteq> sha3_Read (sha3_New256 (toyN True)
                  (take (cpapke_PublicKeySize (toyN True))
                     (drop (cpapke_PrivateKeySize (toyN True))
                        ([0, 0, 200, 1] @ map of_nat [201..<233] @ replicate 32 0)))) 32"
    by code_simp
  have a: "PublicKey_hpk_ok (toy True) ex_pk \<and> PrivateKey_hpk_ok (toy True) ex_sk
     \<and> PublicKey_hpk_ok (toy True)
          \<lparr>pub_pk = Some [7, 7], pub_hpk = map of_nat [14..<46]\<rparr>
     \<and> PublicKey_hpk_ok (toy True)
          \<lparr>pub_pk = Some [1, 1], pub_hpk = map of_nat [2..<34]\<rparr>
     \<and> PrivateKey_hpk_ok (toy True)
          \<lparr>priv_sk = Some [0, 0], priv_pk = Some [0, 0],
             priv_hpk = map of_nat [0..<32], priv_z = replicate 32 0\<rparr>"
    using hpk_invariant [of "toy True" "replicate 34 1" ex_pk ex_sk None 40
        "\<lparr>pub_pk = Some [7, 7], pub_hpk = map of_nat [14..<46]\<rparr>"
        "\<lparr>priv_sk = Some [7, 7], priv_pk = Some [7, 7],
              priv_hpk = map of_nat [14..<46], priv_z = replicate 32 7\<rparr>" 6
        zero_PublicKey "[1, 1]" "\<lparr>pub_pk = Some [1, 1], pub_hpk = map of_nat [2..<34]\<rparr>"
        zero_PrivateKey "[0, 0, 0, 0] @ map of_nat [0..<32] @ replicate 32 0"
        "\<lparr>priv_sk = Some [0, 0], priv_pk = Some [0, 0],
               priv_hpk = map of_nat [0..<32], priv_z = replicate 32 0\<rparr>"]
      k g p s sh t n(1) toy_mlkem_check [of True]
    by blast
  have b: "\<not> PublicKey_hpk_ok (toyN False)
          \<lparr>pub_pk = Some [72, 1], pub_hpk = map of_nat [201..<233]\<rparr>"
    using hpk_invariant [of "toyN False" _ _ _ _ _ _ _ _ zero_PublicKey "[200, 1]"
        "\<lparr>pub_pk = Some [72, 1], pub_hpk = map of_nat [201..<233]\<rparr>"]
      pn pnh n(3)
    by blast
  have c: "\<not> PrivateKey_hpk_ok (toyN True)
          \<lparr>priv_sk = Some [0, 0], priv_pk = Some [72, 1],
             priv_hpk = map of_nat [201..<233], priv_z = replicate 32 0\<rparr>"
    using hpk_invariant [of "toyN True" _ _ _ _ _ _ _ _ _ _ _ zero_PrivateKey
        "[0, 0, 200, 1] @ map of_nat [201..<233] @ replicate 32 0"
        "\<lparr>priv_sk = Some [0, 0], priv_pk = Some [72, 1],
             priv_hpk = map of_nat [201..<233], priv_z = replicate 32 0\<rparr>"]
      sn snh t n(2)
    by blast
  have pt: "PublicKey_Unpack (toyN True) zero_PublicKey [1, 1] =
     (None, \<lparr>pub_pk = Some [1, 1], pub_hpk = map of_nat [2..<34]\<rparr>)"
    by code_simp
  have d: "PublicKey_hpk_ok (toyN True)
        \<lparr>pub_pk = Some [1, 1], pub_hpk = map of_nat [2..<34]\<rparr>"
    using hpk_invariant [of "toyN True" _ _ _ _ _ _ _ _ zero_PublicKey "[1, 1]"
        "\<lparr>pub_pk = Some [1, 1], pub_hpk = map of_nat [2..<34]\<rparr>"]
      pt n(2) toyN_mlkem_check [of True]
    by blast
  show ?thesis using a b c d pn sn by blast
qed

text \<open>The claim as stated fails: in the pre-standard variant \<open>PrivateKey.Unpack\<close> accepts a
  buffer of 68 zero bytes, whose embedded \<open>hpk\<close> is not the hash of the embedded public
  key.\<close>

theorem hpk_invariant_counterexample:
  "PrivateKey_Unpack (toy False) zero_PrivateKey (replicate 68 0)
     = (None, \<lparr>priv_sk = Some [0, 0], priv_pk = Some [0, 0],
                priv_hpk = replicate 32 0, priv_z = replicate 32 0\<rparr>)
   \<and> \<not> PrivateKey_hpk_ok (toy False)
          \<lparr>priv_sk = Some [0, 0], priv_pk = Some [0, 0],
             priv_hpk = replicate 32 0, priv_z = replicate 32 0\<rparr>"
  by code_simp

section \<open>Encapsulation\<close>

text \<open>
  C5. With a seed of 32 bytes, \<open>EncapsulateTo\<close> takes \<open>m = Hash256(seed)\<close> in the
  pre-standard variant and \<open>m = seed\<close> in the standardized one, computes
  \<open>(K', r) = Hash512(m \<parallel> hpk)\<close> and the ciphertext \<open>Encrypt(pk, m, r)\<close>; the shared key is
  the first \<open>SharedKeySize\<close> bytes of the digest in the standardized variant and
  \<open>SHAKE256(K' \<parallel> Hash256(ciphertext))\<close> in the pre-standard one. The entropy source is
  not touched.
\<close>

theorem EncapsulateTo_computes:
  assumes "cpapke_sizes T" and "pub_pk pk = Some cpk"
    and "length seed = EncapsulationSeedSize"
    and "length ct = CiphertextSize T" and "length ss = SharedKeySize"
  shows "EncapsulateTo T pk ct ss (Some seed) w =
           (let m = (if NIST T then seed else sha3_Read (sha3_New256 T seed) 32);
                digest = sha3_Read (sha3_New512 T (m @ pub_hpk pk)) 64;
                K' = take 32 digest;
                r = drop 32 digest;
                ciphertext = cpapke_EncryptTo T cpk m r
            in (None, ciphertext,
                (if NIST T then take SharedKeySize digest
                 else sha3_Read (sha3_NewShake256 T
                        (K' @ sha3_Read (sha3_New256 T ciphertext) 32)) SharedKeySize),
                w))"
  using assms by (rule EncapsulateTo_value)

theorem EncapsulateTo_computes_witness:
  "EncapsulateTo (toy False) ex_pk (replicate 64 0) (replicate 32 0)
      (Some (replicate 32 9)) (0::nat)
     = (None, map of_nat [34..<66] @ map of_nat [129..<161], map of_nat [2..<34], 0)"
proof -
  have l: "pub_pk ex_pk = Some [1, 1]"
    "length (replicate 32 (9::byte)) = EncapsulationSeedSize"
    "length (replicate 64 (0::byte)) = CiphertextSize (toy False)"
    "length (replicate 32 (0::byte)) = SharedKeySize"
    by (simp_all add: ex_pk_def EncapsulationSeedSize_def CiphertextSize_def
        SharedKeySize_def toy_def)
  have v: "(let m = (if NIST (toy False) then replicate 32 9
                     else sha3_Read (sha3_New256 (toy False) (replicate 32 9)) 32);
                digest = sha3_Read (sha3_New512 (toy False) (m @ pub_hpk ex_pk)) 64;
                K' = take 32 digest;
                r = drop 32 digest;
                ciphertext = cpapke_EncryptTo (toy False) [1, 1] m r
            in (None :: fault option, ciphertext,
                (if NIST (toy False) then take SharedKeySize digest
                 else sha3_Read (sha3_NewShake256 (toy False)
                        (K' @ sha3_Read (sha3_New256 (toy False) ciphertext) 32))
                        SharedKeySize),
                0 :: nat))
     = (None, map of_nat [34..<66] @ map of_nat [129..<161], map of_nat [2..<34], 0)"
    by code_simp
  show ?thesis
    using EncapsulateTo_computes [OF toy_sizes l(1) l(2) l(3) l(4), of 0] v by simp
qed

section \<open>Serialization\<close>

text \<open>
  C6. On a buffer of length \<open>PrivateKeySize\<close>, the standardized \<open>PrivateKey.Unpack\<close> hashes
  the embedded packed public key and returns \<open>kem.ErrPrivKey\<close>, which is not the
  size-mismatch error, exactly when that hash differs from the embedded \<open>hpk\<close> bytes; the
  pre-standard \<open>PrivateKey.Unpack\<close> makes no such check and accepts every such buffer,
  taking its four fields from it as they are.
\<close>

theorem PrivateKey_Unpack_check:
  assumes "length buf = PrivateKeySize T" and "PrivateKey_typed sk"
  shows "(NIST T \<longrightarrow>
            fst (PrivateKey_Unpack T sk buf) =
              (if sha3_Read (sha3_New256 T
                     (take (cpapke_PublicKeySize T) (drop (cpapke_PrivateKeySize T) buf))) 32
                  \<noteq> take 32 (drop (cpapke_PrivateKeySize T + cpapke_PublicKeySize T) buf)
               then Some (Error ErrPrivKey) else None))
       \<and> (\<not> NIST T \<longrightarrow>
            PrivateKey_Unpack T sk buf =
              (None,
               \<lparr>priv_sk = Some (cpapke_UnpackSk T (take (cpapke_PrivateKeySize T) buf)),
                  priv_pk = Some (cpapke_UnpackPk T
                     (take (cpapke_PublicKeySize T) (drop (cpapke_PrivateKeySize T) buf))),
                  priv_hpk = take 32 (drop (cpapke_PrivateKeySize T + cpapke_PublicKeySize T) buf),
                  priv_z = drop (cpapke_PrivateKeySize T + cpapke_PublicKeySize T + 32) buf\<rparr>))
       \<and> Error ErrPrivKey \<noteq> Error ErrPrivKeySize"
  using assms
  by (cases sk)
    (simp add: PrivateKey_Unpack_def PrivateKeySize_def PrivateKey_typed_def Let_def
      copy_bytes_same_length ac_simps)

theorem PrivateKey_Unpack_check_witness:
  "fst (PrivateKey_Unpack (toy True) zero_PrivateKey (replicate 68 0))
     = Some (Error ErrPrivKey)
   \<and> fst (PrivateKey_Unpack (toy True) zero_PrivateKey
        ([0, 0, 0, 0] @ map of_nat [0..<32] @ replicate 32 0)) = None
   \<and> fst (PrivateKey_Unpack (toy False) zero_PrivateKey (replicate 68 0)) = None"
proof -
  have t: "PrivateKey_typed (zero_PrivateKey :: (bytes, bytes) PrivateKey)"
    by (simp add: PrivateKey_typed_def zero_PrivateKey_def)
  have l: "length (replicate 68 (0::byte)) = PrivateKeySize (toy True)"
    "length ([0, 0, 0, 0] @ map of_nat [0..<32] @ replicate 32 (0::byte))
       = PrivateKeySize (toy True)"
    "length (replicate 68 (0::byte)) = PrivateKeySize (toy False)"
    by (simp_all add: PrivateKeySize_def toy_def)
  have n: "NIST (toy True)" "\<not> NIST (toy False)" by (simp_all add: toy_def)
  have h1: "sha3_Read (sha3_New256 (toy True)
               (take (cpapke_PublicKeySize (toy True))
                  (drop (cpapke_PrivateKeySize (toy True)) (replicate 68 0)))) 32
            \<noteq> take 32 (drop (cpapke_PrivateKeySize (toy True)
                   + cpapke_PublicKeySize (toy True)) (replicate 68 0))"
    by code_simp
  have h2: "sha3_Read (sha3_New256 (toy True)
               (take (cpapke_PublicKeySize (toy True))
                  (drop (cpapke_PrivateKeySize (toy True))
                     ([0, 0, 0, 0] @ map of_nat [0..<32] @ replicate 32 0)))) 32
            = take 32 (drop (cpapke_PrivateKeySize (toy True)
                   + cpapke_PublicKeySize (toy True))
                     ([0, 0, 0, 0] @ map of_nat [0..<32] @ replicate 32 0))"
    by code_simp
  show ?thesis
    using PrivateKey_Unpack_check [OF l(1) t] PrivateKey_Unpack_check [OF l(2) t]
      PrivateKey_Unpack_check [OF l(3) t] n h1 h2
    by simp
qed

text \<open>
  C7. For a key pair derived from a seed, \<open>PrivateKey.Pack\<close> fills a buffer of
  \<open>PrivateKeySize\<close> bytes, \<open>PrivateKey.Unpack\<close> accepts it and its result is \<open>Equal\<close> to the
  original; \<open>PublicKey.Pack\<close> fills a buffer of \<open>PublicKeySize\<close> bytes, \<open>PublicKey.Unpack\<close>
  accepts it, its result is \<open>Equal\<close> to the original, and encapsulating to it gives what
  encapsulating to the original gives, in both variants. This uses that \<open>cpapke\<close>'s own
  packing and unpacking are inverse on generated keys.
\<close>

theorem Pack_Unpack_roundtrip:
  assumes sizes: "cpapke_sizes T" and rt: "cpapke_roundtrip T"
    and keys: "NewKeyFromSeed T seed = Inr (pk, sk)"
    and bs: "length bufS = PrivateKeySize T" and bp: "length bufP = PublicKeySize T"
    and t0: "PrivateKey_typed sk0"
  shows "\<exists>packedS sk' packedP pk'.
           PrivateKey_Pack T sk bufS = (None, packedS) \<and> length packedS = PrivateKeySize T
         \<and> PrivateKey_Unpack T sk0 packedS = (None, sk')
         \<and> PrivateKey_Equal T sk' (ThisPrivateKey sk) = Inr True
         \<and> PublicKey_Pack T pk bufP = (None, packedP) \<and> length packedP = PublicKeySize T
         \<and> PublicKey_Unpack T pk0 packedP = (None, pk')
         \<and> PublicKey_Equal T pk' (ThisPublicKey pk) = Inr True
         \<and> (\<forall>ct ss eseed w.
               EncapsulateTo T pk' ct ss eseed w = EncapsulateTo T pk ct ss eseed w)"
proof -
  define s where "s = take (cpapke_KeySeedSize T) seed"
  define cpk where "cpk = fst (cpapke_keygen T s)"
  define csk where "csk = snd (cpapke_keygen T s)"
  note f = NewKeyFromSeed_fields [OF keys, folded s_def, folded cpk_def csk_def]
  have ls: "length s = cpapke_KeySeedSize T"
    using f(1) by (simp add: s_def KeySeedSize_def)
  have lz: "length (priv_z sk) = 32" using f(1,7) by (simp add: KeySeedSize_def)
  have lh: "length (priv_hpk sk) = 32" using f(5,6) by (simp add: length_sha3_Read)
  have lpk: "length (cpapke_PackPk T cpk) = cpapke_PublicKeySize T"
    and lsk: "length (cpapke_PackSk T csk) = cpapke_PrivateKeySize T"
    using sizes by (simp_all add: cpapke_sizes_def)
  have r1: "cpapke_UnpackPk T (cpapke_PackPk T cpk) = cpk"
    and r2: "NIST T \<Longrightarrow> cpapke_UnpackMLKEM T (cpapke_PackPk T cpk) = (cpk, None)"
    and r3: "cpapke_EqualSk T (cpapke_UnpackSk T (cpapke_PackSk T csk)) csk"
    using rt ls by (auto simp: cpapke_roundtrip_def cpk_def csk_def split: if_splits)
  define packedS where
    "packedS = cpapke_PackSk T csk @ cpapke_PackPk T cpk @ priv_hpk sk @ priv_z sk"
  have packS: "PrivateKey_Pack T sk bufS = (None, packedS)"
    using bs f(3,4) lz lh
    by (simp add: PrivateKey_Pack_def PrivateKeySize_def Let_def packedS_def
        copy_bytes_def)
  have lpS: "length packedS = PrivateKeySize T"
    using lz lh lpk lsk by (simp add: packedS_def PrivateKeySize_def)
  define sk' where
    "sk' = \<lparr>priv_sk = Some (cpapke_UnpackSk T (cpapke_PackSk T csk)), priv_pk = Some cpk,
            priv_hpk = priv_hpk sk, priv_z = priv_z sk\<rparr>"
  have unpackS: "PrivateKey_Unpack T sk0 packedS = (None, sk')"
    using lpS t0 lz lh lpk lsk r1 f(5,6)
    by (simp add: PrivateKey_Unpack_def Let_def packedS_def sk'_def PrivateKey_typed_def
        copy_bytes_same_length)
  have eqS: "PrivateKey_Equal T sk' (ThisPrivateKey sk) = Inr True"
    using f(3,4) r3 by (simp add: PrivateKey_Equal_def sk'_def ConstantTimeCompare_eq)
  have packP: "PublicKey_Pack T pk bufP = (None, cpapke_PackPk T cpk)"
    using bp f(2) by (simp add: PublicKey_Pack_def)
  have lpP: "length (cpapke_PackPk T cpk) = PublicKeySize T"
    using lpk by (simp add: PublicKeySize_def)
  define pk' where "pk' = pk0\<lparr>pub_pk := Some cpk, pub_hpk := pub_hpk pk\<rparr>"
  have unpackP: "PublicKey_Unpack T pk0 (cpapke_PackPk T cpk) = (None, pk')"
    using lpP r1 r2 f(5) by (simp add: PublicKey_Unpack_def pk'_def)
  have eqP: "PublicKey_Equal T pk' (ThisPublicKey pk) = Inr True"
    using f(2) by (simp add: PublicKey_Equal_def pk'_def)
  have same: "pk' = pk"
    using f(2) by (cases pk, cases pk0) (simp add: pk'_def)
  have enc: "EncapsulateTo T pk' ct ss eseed w = EncapsulateTo T pk ct ss eseed w"
    for ct ss eseed w
    by (simp add: same)
  show ?thesis
    using packS lpS unpackS eqS packP lpP unpackP eqP enc by blast
qed

theorem Pack_Unpack_roundtrip_witness:
  "PrivateKey_Pack (toy True) ex_sk (replicate 68 0)
     = (None, [1, 1, 1, 1] @ map of_nat [2..<34] @ replicate 32 1)
   \<and> PrivateKey_Unpack (toy True) zero_PrivateKey
        ([1, 1, 1, 1] @ map of_nat [2..<34] @ replicate 32 1) = (None, ex_sk)
   \<and> PrivateKey_Equal (toy True) ex_sk (ThisPrivateKey ex_sk) = Inr True
   \<and> PublicKey_Pack (toy True) ex_pk (replicate 2 0) = (None, [1, 1])
   \<and> PublicKey_Unpack (toy True) zero_PublicKey [1, 1] = (None, ex_pk)
   \<and> PublicKey_Equal (toy True) ex_pk (ThisPublicKey ex_pk) = Inr True"
proof -
  have k: "NewKeyFromSeed (toy True) (replicate 34 1) = Inr (ex_pk, ex_sk)"
    by code_simp
  have l: "length (replicate 68 (0::byte)) = PrivateKeySize (toy True)"
    "length (replicate 2 (0::byte)) = PublicKeySize (toy True)"
    by (simp_all add: PrivateKeySize_def PublicKeySize_def toy_def)
  have t: "PrivateKey_typed (zero_PrivateKey :: (bytes, bytes) PrivateKey)"
    by (simp add: PrivateKey_typed_def zero_PrivateKey_def)
  have a: "PrivateKey_Pack (toy True) ex_sk (replicate 68 0)
     = (None, [1, 1, 1, 1] @ map of_nat [2..<34] @ replicate 32 1)"
    by code_simp
  have b: "PublicKey_Pack (toy True) ex_pk (replicate 2 0) = (None, [1, 1])"
    by code_simp
  have c: "PrivateKey_Unpack (toy True) zero_PrivateKey
        ([1, 1, 1, 1] @ map of_nat [2..<34] @ replicate 32 1) = (None, ex_sk)"
    by code_simp
  have d: "PublicKey_Unpack (toy True) zero_PublicKey [1, 1] = (None, ex_pk)"
    by code_simp
  from Pack_Unpack_roundtrip [OF toy_sizes toy_roundtrip k l(1) l(2) t,
      of zero_PublicKey]
  obtain packedS sk' packedP pk' where
    "PrivateKey_Pack (toy True) ex_sk (replicate 68 0) = (None, packedS)"
    "PrivateKey_Unpack (toy True) zero_PrivateKey packedS = (None, sk')"
    "PrivateKey_Equal (toy True) sk' (ThisPrivateKey ex_sk) = Inr True"
    "PublicKey_Pack (toy True) ex_pk (replicate 2 0) = (None, packedP)"
    "PublicKey_Unpack (toy True) zero_PublicKey packedP = (None, pk')"
    "PublicKey_Equal (toy True) pk' (ThisPublicKey ex_pk) = Inr True"
    by blast
  with a b c d show ?thesis by simp
qed

section \<open>Failures\<close>




text \<open>
  C9, as it holds of the code. When the entropy source fails, \<open>GenerateKeyPair\<close>, with a nil reader or a
  supplied one, returns that error as an error value and no keys; \<open>EncapsulateTo\<close> with a nil
  seed panics with that error as the panic value and leaves both buffers untouched. Neither
  continues with other bytes in place of the missing entropy.
\<close>

theorem entropy_failure:
  "(cryptoRand_Reader T w (KeySeedSize T) = (Inl e, w') \<longrightarrow>
      GenerateKeyPair T None w = (Inl (Error e), w'))
   \<and> (r w (KeySeedSize T) = (Inl e, w') \<longrightarrow>
      GenerateKeyPair T (Some r) w = (Inl (Error e), w'))
   \<and> (cryptoRand_Reader T w EncapsulationSeedSize = (Inl e, w') \<longrightarrow>
      EncapsulateTo T pk ct ss None w = (Some (Panic (PanicErr e)), ct, ss, w'))"
  by (simp add: GenerateKeyPair_def EncapsulateTo_def)

theorem entropy_failure_witness:
  "GenerateKeyPair (toy True) None (33::nat) = (Inl (Error (ErrIO ''entropy'')), 33)
   \<and> EncapsulateTo (toy True) zero_PublicKey (replicate 64 0) (replicate 32 0) None (31::nat)
       = (Some (Panic (PanicErr (ErrIO ''entropy''))), replicate 64 0, replicate 32 0, 31)"
proof -
  have a: "cryptoRand_Reader (toy True) (33::nat) (KeySeedSize (toy True))
             = (Inl (ErrIO ''entropy''), 33)"
    by (simp add: toy_def toy_rand_def KeySeedSize_def)
  have b: "cryptoRand_Reader (toy True) (31::nat) EncapsulationSeedSize
             = (Inl (ErrIO ''entropy''), 31)"
    by (simp add: toy_def toy_rand_def EncapsulationSeedSize_def)
  show ?thesis
    using entropy_failure [of "toy True" 33 "ErrIO ''entropy''" 33 toy_rand
        zero_PublicKey "replicate 64 0" "replicate 32 0"] a
      entropy_failure [of "toy True" 31 "ErrIO ''entropy''" 31 toy_rand
        zero_PublicKey "replicate 64 0" "replicate 32 0"] b
    by simp
qed

text \<open>The claim as stated fails: with a nil seed and an entropy source that cannot deliver,
  \<open>EncapsulateTo\<close> panics instead of returning an error value.\<close>

theorem entropy_failure_counterexample:
  "fst (EncapsulateTo (toy False) zero_PublicKey (replicate 64 0) (replicate 32 0) None (0::nat))
     = Some (Panic (PanicErr (ErrIO ''entropy'')))"
  by code_simp

section \<open>Equality of private keys\<close>

text \<open>
  C10. \<open>PrivateKey.Equal\<close> returns true for two private keys whose \<open>pk\<close> pointers are both
  nil, whatever their \<open>sk\<close>, \<open>hpk\<close> and \<open>z\<close> fields hold; two zero values are an instance.
\<close>

theorem PrivateKey_Equal_nil_pk:
  "priv_pk a = None \<Longrightarrow> priv_pk b = None
     \<Longrightarrow> PrivateKey_Equal T a (ThisPrivateKey b) = Inr True"
  by (simp add: PrivateKey_Equal_def)

theorem PrivateKey_Equal_nil_pk_witness:
  "PrivateKey_Equal (toy True) zero_PrivateKey (ThisPrivateKey zero_PrivateKey) = Inr True
   \<and> PrivateKey_Equal (toy False)
        \<lparr>priv_sk = Some [1, 2], priv_pk = None,
           priv_hpk = replicate 32 3, priv_z = replicate 32 4\<rparr>
        (ThisPrivateKey zero_PrivateKey) = Inr True"
  using PrivateKey_Equal_nil_pk [of zero_PrivateKey zero_PrivateKey "toy True"]
    PrivateKey_Equal_nil_pk [of "\<lparr>priv_sk = Some [1, 2], priv_pk = None,
      priv_hpk = replicate 32 3, priv_z = replicate 32 4\<rparr>" zero_PrivateKey "toy False"]
  by (simp add: zero_PrivateKey_def)

end
